theory Spec2Isabelle
  imports Complex_Main "HOL-Library.Log_Nat"
begin

section \<open>MarqueeSelection: a shallow embedding of src/src/index.ts\<close>

text \<open>
  The class \<^verbatim>\<open>MarqueeSelection\<close> is a scene-graph node that owns a dash texture and four
  tiling strips, lays the strips out around a rectangle (\<^verbatim>\<open>resize\<close>), scrolls their tile
  offsets (\<^verbatim>\<open>update\<close>), registers \<^verbatim>\<open>update\<close> with the shared ticker (\<^verbatim>\<open>autoUpdate\<close>)
  and releases everything (\<^verbatim>\<open>destroy\<close>).
\<close>

subsection \<open>Numbers\<close>

text \<open>
  A number of the language is an IEEE double: a finite value, which is a rational, or one
  of \<^verbatim>\<open>Infinity\<close>, \<^verbatim>\<open>-Infinity\<close> and \<^verbatim>\<open>NaN\<close>. The two zeros are not told apart (they compare
  equal in the language).
\<close>

datatype jsnum = Num rat | PosInf | NegInf | NaN

text \<open>Powers of two with an integer exponent.\<close>

definition pow2 :: "int \<Rightarrow> rat" where
  "pow2 e = (if 0 \<le> e then 2 ^ nat e else 1 / 2 ^ nat (- e))"

text \<open>The binade of a non-zero rational: the \<open>e\<close> with \<open>2\<^sup>e \<le> |q| < 2\<^sup>e\<^sup>+\<^sup>1\<close>.\<close>

definition binade :: "rat \<Rightarrow> int" where
  "binade q =
     (let (a, b) = quotient_of \<bar>q\<bar>; e0 = bitlen a - bitlen b
      in if pow2 e0 \<le> \<bar>q\<bar> then e0 else e0 - 1)"

text \<open>Rounding to the nearest integer, a tie going to the even one.\<close>

definition round_half_even :: "rat \<Rightarrow> int" where
  "round_half_even x =
     (let f = \<lfloor>x\<rfloor>; d = x - of_int f
      in if d < 1 / 2 then f else if 1 / 2 < d then f + 1 else if even f then f else f + 1)"

text \<open>
  The double nearest to a rational (ties to even): 53 significant bits, exponents from
  \<open>-1022\<close> (below that the spacing stays \<open>2\<^sup>-\<^sup>1\<^sup>0\<^sup>7\<^sup>4\<close>), and infinity when the rounded value
  reaches \<open>2\<^sup>1\<^sup>0\<^sup>2\<^sup>4\<close>. This is the result of every arithmetic operation whose exact result
  is the rational, and the value of a decimal literal.
\<close>

definition round_double :: "rat \<Rightarrow> jsnum" where
  "round_double q =
     (if q = 0 then Num 0
      else let e = max (binade q) (- 1022);
               ulp = pow2 (e - 52);
               r = of_int (round_half_even (q / ulp)) * ulp
           in if r \<noteq> 0 \<and> 1024 \<le> binade r then (if 0 < q then PosInf else NegInf)
              else Num r)"

text \<open>A rational is a double when rounding leaves it as it is.\<close>

definition is_double :: "rat \<Rightarrow> bool" where
  "is_double q = (round_double q = Num q)"

fun js_neg :: "jsnum \<Rightarrow> jsnum" where
  "js_neg (Num a) = Num (- a)"
| "js_neg PosInf = NegInf"
| "js_neg NegInf = PosInf"
| "js_neg NaN = NaN"

fun js_add :: "jsnum \<Rightarrow> jsnum \<Rightarrow> jsnum" where
  "js_add (Num a) (Num b) = round_double (a + b)"
| "js_add NaN y = NaN"
| "js_add x NaN = NaN"
| "js_add PosInf NegInf = NaN"
| "js_add NegInf PosInf = NaN"
| "js_add PosInf y = PosInf"
| "js_add NegInf y = NegInf"
| "js_add x PosInf = PosInf"
| "js_add x NegInf = NegInf"

text \<open>The sign of a product with an infinite factor; a zero factor gives \<^verbatim>\<open>NaN\<close>.\<close>

definition signed_inf :: "bool \<Rightarrow> rat \<Rightarrow> jsnum" where
  "signed_inf positive b =
     (if b = 0 then NaN else if (0 < b) = positive then PosInf else NegInf)"

fun js_mul :: "jsnum \<Rightarrow> jsnum \<Rightarrow> jsnum" where
  "js_mul (Num a) (Num b) = round_double (a * b)"
| "js_mul NaN y = NaN"
| "js_mul x NaN = NaN"
| "js_mul PosInf (Num b) = signed_inf True b"
| "js_mul NegInf (Num b) = signed_inf False b"
| "js_mul (Num a) PosInf = signed_inf True a"
| "js_mul (Num a) NegInf = signed_inf False a"
| "js_mul PosInf PosInf = PosInf"
| "js_mul NegInf NegInf = PosInf"
| "js_mul PosInf NegInf = NegInf"
| "js_mul NegInf PosInf = NegInf"

text \<open>Rounding towards zero, the quotient that \<^verbatim>\<open>%\<close> uses.\<close>

definition trunc :: "rat \<Rightarrow> int" where
  "trunc q = (if 0 \<le> q then \<lfloor>q\<rfloor> else \<lceil>q\<rceil>)"

text \<open>
  The operator \<^verbatim>\<open>a % b\<close> of the language. For finite operands and a non-zero divisor it is
  \<^verbatim>\<open>a - b * q\<close> where \<^verbatim>\<open>q\<close> is \<^verbatim>\<open>a / b\<close> rounded towards zero, so a non-zero result has the
  sign of the dividend; the result is exact (the remainder of two doubles is a double).
  It is \<^verbatim>\<open>NaN\<close> for a zero divisor, for an infinite dividend and for a \<^verbatim>\<open>NaN\<close> operand, and
  the dividend itself for a finite dividend and an infinite divisor.
\<close>

fun js_rem :: "jsnum \<Rightarrow> jsnum \<Rightarrow> jsnum" where
  "js_rem (Num a) (Num b) = (if b = 0 then NaN else Num (a - b * of_int (trunc (a / b))))"
| "js_rem (Num a) PosInf = Num a"
| "js_rem (Num a) NegInf = Num a"
| "js_rem x y = NaN"

text \<open>
  The mathematical modulo the specification speaks of: for a positive period the
  representative in \<open>[0, p)\<close>. It is not part of the program.
\<close>

definition math_mod :: "rat \<Rightarrow> rat \<Rightarrow> rat" where
  "math_mod a p = a - p * of_int \<lfloor>a / p\<rfloor>"

subsection \<open>Colours, canvas and texture\<close>

text \<open>
  A colour as the canvas paints it: three channels from 0 to 255 and an alpha from 0 to 1.
\<close>

record rgba =
  red :: nat
  green :: nat
  blue :: nat
  alpha :: rat

text \<open>
  \<^verbatim>\<open>Color.shared.setValue(color).toRgbaString()\<close> belongs to the host library. A colour
  source is represented by what the library makes of it: the colour it resolves to, or
  nothing, in which case \<^verbatim>\<open>setValue\<close> throws an \<^verbatim>\<open>Error\<close>.
\<close>

datatype colorSource = Resolves rgba | Unresolvable

definition white :: colorSource where
  "white = Resolves \<lparr>red = 255, green = 255, blue = 255, alpha = 1\<rparr>"

definition black :: rgba where
  "black = \<lparr>red = 0, green = 0, blue = 0, alpha = 1\<rparr>"

text \<open>
  The canvas of the host: integer dimensions, the current fill style, and the rectangles
  filled so far, each with the style it was filled in.
\<close>

record canvas =
  cv_width :: nat
  cv_height :: nat
  cv_fillStyle :: rgba
  cv_painted :: "(rgba \<times> rat \<times> rat \<times> rat \<times> rat) list"

text \<open>
  Assigning a number to \<^verbatim>\<open>canvas.width\<close> or \<^verbatim>\<open>canvas.height\<close>: the number is converted to an
  unsigned 32-bit integer (the fraction is dropped, the value taken modulo \<open>2\<^sup>3\<^sup>2\<close>, a
  non-finite number is 0), and a result above \<open>2\<^sup>3\<^sup>1 - 1\<close> is replaced by the default of the
  attribute.
\<close>

definition canvas_dim :: "nat \<Rightarrow> jsnum \<Rightarrow> nat" where
  "canvas_dim dflt_dim v =
     (case v of
        Num q \<Rightarrow> (let n = trunc q mod 2 ^ 32 in if n \<le> 2147483647 then nat n else dflt_dim)
      | _ \<Rightarrow> 0)"

definition createCanvas :: "jsnum \<Rightarrow> jsnum \<Rightarrow> canvas" where
  "createCanvas w h =
     \<lparr>cv_width = canvas_dim 300 w, cv_height = canvas_dim 150 h, cv_fillStyle = black,
      cv_painted = []\<rparr>"

text \<open>\<^verbatim>\<open>fillRect\<close> does nothing when an argument is not finite.\<close>

definition fillRect :: "jsnum \<Rightarrow> jsnum \<Rightarrow> jsnum \<Rightarrow> jsnum \<Rightarrow> canvas \<Rightarrow> canvas" where
  "fillRect x y w h cv =
     (case (x, y, w, h) of
        (Num x', Num y', Num w', Num h') \<Rightarrow>
          cv\<lparr>cv_painted := cv_painted cv @ [(cv_fillStyle cv, x', y', w', h')]\<rparr>
      | _ \<Rightarrow> cv)"








datatype scale_mode = Linear | Nearest

record texture =
  source :: canvas
  scaleMode :: scale_mode
  tex_destroyed :: bool

definition Texture_from :: "canvas \<Rightarrow> texture" where
  "Texture_from cv = \<lparr>source = cv, scaleMode = Linear, tex_destroyed = False\<rparr>"

definition texture_destroy :: "texture \<Rightarrow> texture" where
  "texture_destroy t = t\<lparr>tex_destroyed := True\<rparr>"

subsection \<open>Tiling strips\<close>

record strip =
  roundPixels :: bool
  strip_texture :: texture
  pos_x :: jsnum
  pos_y :: jsnum
  width :: jsnum
  height :: jsnum
  tile_x :: jsnum
  tile_y :: jsnum
  strip_destroyed :: bool

text \<open>\<^verbatim>\<open>new TilingSprite({roundPixels, texture, width, height})\<close>.\<close>

definition TilingSprite :: "bool \<Rightarrow> texture \<Rightarrow> jsnum \<Rightarrow> jsnum \<Rightarrow> strip" where
  "TilingSprite rp tx w h =
     \<lparr>roundPixels = rp, strip_texture = tx, pos_x = Num 0, pos_y = Num 0, width = w,
      height = h, tile_x = Num 0, tile_y = Num 0, strip_destroyed = False\<rparr>"

definition position_set :: "jsnum \<Rightarrow> jsnum \<Rightarrow> strip \<Rightarrow> strip" where
  "position_set x y l = l\<lparr>pos_x := x, pos_y := y\<rparr>"

definition set_width :: "jsnum \<Rightarrow> strip \<Rightarrow> strip" where
  "set_width w l = l\<lparr>width := w\<rparr>"

definition set_height :: "jsnum \<Rightarrow> strip \<Rightarrow> strip" where
  "set_height h l = l\<lparr>height := h\<rparr>"

definition set_tile_x :: "jsnum \<Rightarrow> strip \<Rightarrow> strip" where
  "set_tile_x v l = l\<lparr>tile_x := v\<rparr>"

definition set_tile_y :: "jsnum \<Rightarrow> strip \<Rightarrow> strip" where
  "set_tile_y v l = l\<lparr>tile_y := v\<rparr>"

definition strip_destroy :: "strip \<Rightarrow> strip" where
  "strip_destroy l = l\<lparr>strip_destroyed := True\<rparr>"

subsection \<open>The node and the shared ticker\<close>

datatype edge = TopLine | LeftLine | RightLine | BottomLine

text \<open>
  A listener of \<^verbatim>\<open>Ticker.shared\<close>: the pair \<^verbatim>\<open>(this.update, this)\<close> of the node, or a
  callback of somebody else.
\<close>

datatype listener = ThisUpdate | Foreign nat

text \<open>
  What can be thrown: a \<^verbatim>\<open>TypeError\<close> for a member access on \<^verbatim>\<open>undefined\<close>, and the
  \<^verbatim>\<open>Error\<close> of the colour conversion.
\<close>

datatype error = TypeError | ColorError

text \<open>
  The fields of the node, and with them the listener list of \<^verbatim>\<open>Ticker.shared\<close>, the one
  piece of global state the class touches. A reference that is \<^verbatim>\<open>undefined\<close> (not yet
  assigned by the constructor, or cleared by \<^verbatim>\<open>destroy\<close>) is \<open>None\<close>.
\<close>

record state =
  thickness :: jsnum
  dash :: jsnum
  dashSpace :: jsnum
  speed :: jsnum
  topLine :: "strip option"
  leftLine :: "strip option"
  rightLine :: "strip option"
  bottomLine :: "strip option"
  texture :: "texture option"
  autoUpdate :: bool
  currentTime :: jsnum
  visible :: bool
  children :: "edge list"
  destroyed :: bool
  ticker :: "listener list"

text \<open>
  A method either returns (\<open>Inr\<close>, with the state it leaves) or throws (\<open>Inl\<close>, with the
  error and the state at the throw: what was written before the throw stays written).
\<close>

type_synonym result = "(error \<times> state) + state"

definition result_state :: "result \<Rightarrow> state" where
  "result_state r = (case r of Inl (e, s) \<Rightarrow> s | Inr s \<Rightarrow> s)"

definition threw :: "result \<Rightarrow> error option" where
  "threw r = (case r of Inl (e, s) \<Rightarrow> Some e | Inr s \<Rightarrow> None)"

text \<open>Statements in sequence: the first throw ends the method.\<close>

fun seq :: "(state \<Rightarrow> result) list \<Rightarrow> state \<Rightarrow> result" where
  "seq [] s = Inr s"
| "seq (st # sts) s = (case st s of Inl e \<Rightarrow> Inl e | Inr s' \<Rightarrow> seq sts s')"

text \<open>
  A statement that reads a member of \<^verbatim>\<open>this._topLine\<close> (and so on) and writes through it:
  a \<^verbatim>\<open>TypeError\<close> when the reference is \<^verbatim>\<open>undefined\<close>.
\<close>

definition on_topLine :: "(strip \<Rightarrow> strip) \<Rightarrow> state \<Rightarrow> result" where
  "on_topLine f s =
     (case topLine s of None \<Rightarrow> Inl (TypeError, s) | Some l \<Rightarrow> Inr (s\<lparr>topLine := Some (f l)\<rparr>))"

definition on_leftLine :: "(strip \<Rightarrow> strip) \<Rightarrow> state \<Rightarrow> result" where
  "on_leftLine f s =
     (case leftLine s of None \<Rightarrow> Inl (TypeError, s) | Some l \<Rightarrow> Inr (s\<lparr>leftLine := Some (f l)\<rparr>))"

definition on_rightLine :: "(strip \<Rightarrow> strip) \<Rightarrow> state \<Rightarrow> result" where
  "on_rightLine f s =
     (case rightLine s of None \<Rightarrow> Inl (TypeError, s) | Some l \<Rightarrow> Inr (s\<lparr>rightLine := Some (f l)\<rparr>))"

definition on_bottomLine :: "(strip \<Rightarrow> strip) \<Rightarrow> state \<Rightarrow> result" where
  "on_bottomLine f s =
     (case bottomLine s of None \<Rightarrow> Inl (TypeError, s)
      | Some l \<Rightarrow> Inr (s\<lparr>bottomLine := Some (f l)\<rparr>))"

definition on_texture :: "(texture \<Rightarrow> texture) \<Rightarrow> state \<Rightarrow> result" where
  "on_texture f s =
     (case texture s of None \<Rightarrow> Inl (TypeError, s) | Some t \<Rightarrow> Inr (s\<lparr>texture := Some (f t)\<rparr>))"

subsection \<open>resize\<close>

definition resize :: "jsnum \<Rightarrow> jsnum \<Rightarrow> state \<Rightarrow> result" where
  "resize w h s =
     (let l = thickness s in
      seq [on_topLine (position_set (js_neg l) (js_neg l)),
           on_leftLine (position_set (js_neg l) (Num 0)),
           on_rightLine (position_set w (Num 0)),
           on_bottomLine (position_set (js_neg l) h),
           on_topLine (set_width (js_add w (js_mul l (Num 2)))),
           on_bottomLine (set_width (js_add w (js_mul l (Num 2)))),
           on_leftLine (set_height h),
           on_rightLine (set_height h)] s)"

subsection \<open>update\<close>

definition update :: "state \<Rightarrow> result" where
  "update s =
     (if visible s then
        (let s1 = s\<lparr>currentTime := js_add (currentTime s) (speed s)\<rparr>;
             size = js_add (dash s1) (dashSpace s1) in
         seq [\<lambda>s. on_topLine (set_tile_x (js_rem (currentTime s) size)) s,
              \<lambda>s. on_bottomLine (set_tile_x (js_rem (js_neg (currentTime s)) size)) s,
              \<lambda>s. on_leftLine (set_tile_y (js_rem (js_neg (currentTime s)) size)) s,
              \<lambda>s. on_rightLine (set_tile_y (js_rem (currentTime s) size)) s] s1)
      else Inr s)"

subsection \<open>autoUpdate\<close>

text \<open>
  \<^verbatim>\<open>Ticker.shared.remove(fn, context)\<close> drops every listener that matches, and is a no-op
  when none does; \<^verbatim>\<open>Ticker.shared.add(fn, context)\<close> adds one listener, whether or not an
  equal one is there already.
\<close>

definition ticker_remove :: "listener \<Rightarrow> listener list \<Rightarrow> listener list" where
  "ticker_remove l tk = filter (\<lambda>x. x \<noteq> l) tk"

definition ticker_add :: "listener \<Rightarrow> listener list \<Rightarrow> listener list" where
  "ticker_add l tk = tk @ [l]"

definition set_autoUpdate :: "bool \<Rightarrow> state \<Rightarrow> state" where
  "set_autoUpdate v s =
     (let s1 = s\<lparr>autoUpdate := v\<rparr>;
          s2 = s1\<lparr>ticker := ticker_remove ThisUpdate (ticker s1)\<rparr>
      in if v then s2\<lparr>ticker := ticker_add ThisUpdate (ticker s2)\<rparr> else s2)"

subsection \<open>destroy\<close>

definition removeChildren :: "state \<Rightarrow> state" where
  "removeChildren s = s\<lparr>children := []\<rparr>"

text \<open>
  \<^verbatim>\<open>super.destroy(true)\<close> is the base node's teardown. The base class does not know the
  ticker or the \<^verbatim>\<open>update\<close> method of this class, and teardown does not change the
  visibility flag: it marks the node destroyed.
\<close>

definition Container_destroy :: "state \<Rightarrow> state" where
  "Container_destroy s = s\<lparr>destroyed := True\<rparr>"

definition destroy :: "state \<Rightarrow> result" where
  "destroy s =
     seq [on_topLine strip_destroy,
          on_leftLine strip_destroy,
          on_rightLine strip_destroy,
          on_bottomLine strip_destroy,
          on_texture texture_destroy,
          \<lambda>s. Inr (removeChildren s),
          \<lambda>s. Inr (Container_destroy s),
          \<lambda>s. Inr (s\<lparr>topLine := None, leftLine := None, rightLine := None,
                      bottomLine := None, texture := None\<rparr>)] s"

subsection \<open>The constructor\<close>

record options =
  opt_thickness :: "jsnum option"
  opt_color :: "colorSource option"
  opt_dash :: "jsnum option"
  opt_dashSpace :: "jsnum option"
  opt_speed :: "jsnum option"
  opt_width :: "jsnum option"
  opt_height :: "jsnum option"
  opt_autoUpdate :: "bool option"
  opt_visible :: "bool option"

text \<open>A destructuring default: the value given, or the default when the option is absent.\<close>

definition dflt :: "'a \<Rightarrow> 'a option \<Rightarrow> 'a" where
  "dflt d v = (case v of None \<Rightarrow> d | Some x \<Rightarrow> x)"

definition no_options :: options where
  "no_options =
     \<lparr>opt_thickness = None, opt_color = None, opt_dash = None, opt_dashSpace = None,
      opt_speed = None, opt_width = None, opt_height = None, opt_autoUpdate = None,
      opt_visible = None\<rparr>"

definition addChild :: "edge list \<Rightarrow> state \<Rightarrow> state" where
  "addChild es s = s\<lparr>children := children s @ es\<rparr>"

text \<open>
  The texture of the constructor, for a colour that resolved: a canvas of
  \<^verbatim>\<open>dash + dashSpace\<close> in both directions, one \<^verbatim>\<open>fillRect(0, 0, dash, dash)\<close> in the colour,
  wrapped and set to nearest sampling.
\<close>

definition dash_texture :: "rgba \<Rightarrow> jsnum \<Rightarrow> jsnum \<Rightarrow> texture" where
  "dash_texture c d ds =
     (let canvas = createCanvas (js_add d ds) (js_add d ds);
          ctx = canvas\<lparr>cv_fillStyle := c\<rparr>;
          drawn = fillRect (Num 0) (Num 0) d d ctx
      in (Texture_from drawn)\<lparr>scaleMode := Nearest\<rparr>)"

text \<open>
  \<^verbatim>\<open>new MarqueeSelection(options)\<close>, with the listeners that \<^verbatim>\<open>Ticker.shared\<close> holds at
  that moment. The visibility is the base node's, taken from the remaining options
  (\<^verbatim>\<open>...rest\<close>), true when absent. The literal \<^verbatim>\<open>0.2\<close> is the double nearest to \<open>1/5\<close>. When
  the colour does not resolve, the constructor throws before any strip or texture exists.
  The host is taken to provide the canvas and its 2d context.
\<close>

definition construct :: "options \<Rightarrow> listener list \<Rightarrow> result" where
  "construct opts tk =
     (let thickness = dflt (Num 2) (opt_thickness opts);
          color = dflt white (opt_color opts);
          dash = dflt (Num 2) (opt_dash opts);
          dashSpace = dflt (Num 2) (opt_dashSpace opts);
          speed = dflt (round_double (1 / 5)) (opt_speed opts);
          width = dflt (Num 100) (opt_width opts);
          height = dflt (Num 100) (opt_height opts);
          autoUpdate = dflt True (opt_autoUpdate opts);
          this = \<lparr>thickness = thickness, dash = dash, dashSpace = dashSpace, speed = speed,
                  topLine = None, leftLine = None, rightLine = None, bottomLine = None,
                  texture = None, autoUpdate = True, currentTime = Num 0,
                  visible = dflt True (opt_visible opts),
                  children = [], destroyed = False, ticker = tk\<rparr>
      in case color of
           Unresolvable \<Rightarrow> Inl (ColorError, this)
         | Resolves c \<Rightarrow>
             (let texture = dash_texture c dash dashSpace;
                  s0 = this\<lparr>texture := Some texture,
                         topLine := Some (TilingSprite True texture width thickness),
                         leftLine := Some (TilingSprite True texture thickness height),
                         rightLine := Some (TilingSprite True texture thickness height),
                         bottomLine := Some (TilingSprite True texture width thickness)\<rparr>
              in seq [resize width height,
                      \<lambda>s. Inr (addChild [TopLine, LeftLine, RightLine, BottomLine] s),
                      \<lambda>s. Inr (set_autoUpdate autoUpdate s)] s0))"

subsection \<open>Frames of the shared ticker and sessions\<close>

text \<open>
  One frame: the ticker calls its listeners in order. Only \<^verbatim>\<open>(this.update, this)\<close> touches
  this node; a throw leaves the frame.
\<close>

fun emit_all :: "listener list \<Rightarrow> state \<Rightarrow> result" where
  "emit_all [] s = Inr s"
| "emit_all (ThisUpdate # ls) s =
     (case update s of Inl e \<Rightarrow> Inl e | Inr s' \<Rightarrow> emit_all ls s')"
| "emit_all (Foreign k # ls) s = emit_all ls s"

definition tick :: "state \<Rightarrow> result" where
  "tick s = emit_all (ticker s) s"

text \<open>What the owner of a node, or the host, can do to it.\<close>

datatype op = Resize jsnum jsnum | Update | SetAutoUpdate bool | SetVisible bool | Destroy | Tick

fun exec :: "op \<Rightarrow> state \<Rightarrow> result" where
  "exec (Resize w h) s = resize w h s"
| "exec Update s = update s"
| "exec (SetAutoUpdate v) s = Inr (set_autoUpdate v s)"
| "exec (SetVisible v) s = Inr (s\<lparr>visible := v\<rparr>)"
| "exec Destroy s = destroy s"
| "exec Tick s = tick s"

definition run :: "op list \<Rightarrow> state \<Rightarrow> result" where
  "run ops s = seq (map exec ops) s"

text \<open>A node is constructed and then operated on.\<close>

definition session :: "options \<Rightarrow> listener list \<Rightarrow> op list \<Rightarrow> result" where
  "session opts tk ops =
     (case construct opts tk of Inl e \<Rightarrow> Inl e | Inr s \<Rightarrow> run ops s)"

subsection \<open>Observations\<close>

text \<open>A node is alive while none of its five references is \<^verbatim>\<open>undefined\<close>.\<close>

definition alive :: "state \<Rightarrow> bool" where
  "alive s = (topLine s \<noteq> None \<and> leftLine s \<noteq> None \<and> rightLine s \<noteq> None \<and>
              bottomLine s \<noteq> None \<and> texture s \<noteq> None)"

text \<open>Position and size of a strip; the four strips in the order top, bottom, left, right.\<close>

definition geometry :: "strip \<Rightarrow> jsnum \<times> jsnum \<times> jsnum \<times> jsnum" where
  "geometry l = (pos_x l, pos_y l, width l, height l)"

definition layout ::
  "state \<Rightarrow> (jsnum \<times> jsnum \<times> jsnum \<times> jsnum) option \<times> (jsnum \<times> jsnum \<times> jsnum \<times> jsnum) option \<times>
     (jsnum \<times> jsnum \<times> jsnum \<times> jsnum) option \<times> (jsnum \<times> jsnum \<times> jsnum \<times> jsnum) option" where
  "layout s = (map_option geometry (topLine s), map_option geometry (bottomLine s),
               map_option geometry (leftLine s), map_option geometry (rightLine s))"

text \<open>
  The tile offsets along the tiling axis: top x, bottom x, left y, right y.
\<close>

definition tile_offsets ::
  "state \<Rightarrow> jsnum option \<times> jsnum option \<times> jsnum option \<times> jsnum option" where
  "tile_offsets s = (map_option tile_x (topLine s), map_option tile_x (bottomLine s),
                     map_option tile_y (leftLine s), map_option tile_y (rightLine s))"

subsection \<open>The specification's reading of the offsets\<close>

text \<open>
  The offsets as the specification words them, with the mathematical modulo: top
  \<open>t mod period\<close>, bottom and left \<open>-t mod period\<close>, right \<open>t mod period\<close>, for the time
  \<open>t\<close> of the state after the update, both finite. This definition follows the
  specification, not the source; it is what the program is compared with.
\<close>

definition spec_offsets ::
  "state \<Rightarrow> jsnum option \<times> jsnum option \<times> jsnum option \<times> jsnum option" where
  "spec_offsets s =
     (case (currentTime s, js_add (dash s) (dashSpace s)) of
        (Num t, Num period) \<Rightarrow>
          (Some (Num (math_mod t period)), Some (Num (math_mod (- t) period)),
           Some (Num (math_mod (- t) period)), Some (Num (math_mod t period)))
      | _ \<Rightarrow> (None, None, None, None))"

text \<open>
  The options of the specification's end-to-end example:
  \<^verbatim>\<open>{width: 100, height: 50, thickness: 2, dash: 4, dashSpace: 4, speed: 0.2}\<close>.
\<close>

definition marquee_opts :: options where
  "marquee_opts = no_options\<lparr>opt_width := Some (Num 100), opt_height := Some (Num 50),
     opt_thickness := Some (Num 2), opt_dash := Some (Num 4), opt_dashSpace := Some (Num 4),
     opt_speed := Some (round_double (1 / 5))\<rparr>"

subsection \<open>Cross-axis sizes and the outer box\<close>

text \<open>
  \<^verbatim>\<open>resize\<close> never writes the height of the top and bottom strips or the width of the left
  and right strips: they are what the constructor gave them, the thickness. This is the
  invariant of every strip that is still referenced.
\<close>

definition cross_ok :: "state \<Rightarrow> bool" where
  "cross_ok s =
     ((topLine s = None \<or> map_option height (topLine s) = Some (thickness s)) \<and>
      (bottomLine s = None \<or> map_option height (bottomLine s) = Some (thickness s)) \<and>
      (leftLine s = None \<or> map_option width (leftLine s) = Some (thickness s)) \<and>
      (rightLine s = None \<or> map_option width (rightLine s) = Some (thickness s)))"

text \<open>
  The rectangle a strip covers, as its lower and upper corner in exact arithmetic on the
  numbers the strip holds (when they are finite), and the smallest rectangle around the
  four strips: the outer bounding box of the specification.
\<close>

definition strip_box :: "strip \<Rightarrow> ((rat \<times> rat) \<times> (rat \<times> rat)) option" where
  "strip_box l =
     (case (pos_x l, pos_y l, width l, height l) of
        (Num x, Num y, Num w, Num h) \<Rightarrow>
          Some ((min x (x + w), min y (y + h)), (max x (x + w), max y (y + h)))
      | _ \<Rightarrow> None)"

definition join_box ::
  "(rat \<times> rat) \<times> (rat \<times> rat) \<Rightarrow> (rat \<times> rat) \<times> (rat \<times> rat) \<Rightarrow> (rat \<times> rat) \<times> (rat \<times> rat)" where
  "join_box a b =
     ((min (fst (fst a)) (fst (fst b)), min (snd (fst a)) (snd (fst b))),
      (max (fst (snd a)) (fst (snd b)), max (snd (snd a)) (snd (snd b))))"

definition outer_box :: "state \<Rightarrow> ((rat \<times> rat) \<times> (rat \<times> rat)) option" where
  "outer_box s =
     (case (topLine s, bottomLine s, leftLine s, rightLine s) of
        (Some t, Some b, Some l, Some r) \<Rightarrow>
          (case (strip_box t, strip_box b, strip_box l, strip_box r) of
             (Some bt, Some bb, Some bl, Some br) \<Rightarrow>
               Some (join_box bt (join_box bb (join_box bl br)))
           | _ \<Rightarrow> None)
      | _ \<Rightarrow> None)"

text \<open>The double \<^verbatim>\<open>0.1\<close>, and a node of that thickness.\<close>

definition tenth :: rat where
  "tenth = 3602879701896397 / 36028797018963968"

definition tenth_opts :: options where
  "tenth_opts = no_options\<lparr>opt_thickness := Some (round_double (1 / 10))\<rparr>"

subsection \<open>What resize may write\<close>

text \<open>
  The state with everything \<^verbatim>\<open>resize\<close> is allowed to write blanked out: the position of
  each strip, the width of the top and bottom strips, the height of the left and right
  strips. Two states that agree after blanking differ in those fields only.
\<close>

definition forget_layout :: "state \<Rightarrow> state" where
  "forget_layout s = s\<lparr>
     topLine := map_option (\<lambda>l. l\<lparr>pos_x := Num 0, pos_y := Num 0, width := Num 0\<rparr>) (topLine s),
     bottomLine :=
       map_option (\<lambda>l. l\<lparr>pos_x := Num 0, pos_y := Num 0, width := Num 0\<rparr>) (bottomLine s),
     leftLine := map_option (\<lambda>l. l\<lparr>pos_x := Num 0, pos_y := Num 0, height := Num 0\<rparr>) (leftLine s),
     rightLine :=
       map_option (\<lambda>l. l\<lparr>pos_x := Num 0, pos_y := Num 0, height := Num 0\<rparr>) (rightLine s)\<rparr>"

subsection \<open>Further example options\<close>

text \<open>A node constructed hidden (\<^verbatim>\<open>{visible: false}\<close>, an option of the base node).\<close>

definition hidden_opts :: options where
  "hidden_opts = no_options\<lparr>opt_visible := Some False\<rparr>"





section \<open>Properties\<close>

subsection \<open>What the methods do on a live node\<close>

lemmas strip_ops = position_set_def set_width_def set_height_def set_tile_x_def set_tile_y_def
  strip_destroy_def

lemmas on_defs = on_topLine_def on_leftLine_def on_rightLine_def on_bottomLine_def on_texture_def

lemma resize_alive:
  assumes "topLine s = Some t" "leftLine s = Some l" "rightLine s = Some r" "bottomLine s = Some b"
  shows "resize w h s = Inr (s\<lparr>
      topLine := Some (t\<lparr>pos_x := js_neg (thickness s), pos_y := js_neg (thickness s),
                         width := js_add w (js_mul (thickness s) (Num 2))\<rparr>),
      leftLine := Some (l\<lparr>pos_x := js_neg (thickness s), pos_y := Num 0, height := h\<rparr>),
      rightLine := Some (r\<lparr>pos_x := w, pos_y := Num 0, height := h\<rparr>),
      bottomLine := Some (b\<lparr>pos_x := js_neg (thickness s), pos_y := h,
                            width := js_add w (js_mul (thickness s) (Num 2))\<rparr>)\<rparr>)"
  using assms by (simp add: resize_def on_defs strip_ops Let_def)

lemma resize_Inr_alive:
  assumes "resize w h s = Inr s'"
  shows "topLine s \<noteq> None \<and> leftLine s \<noteq> None \<and> rightLine s \<noteq> None \<and> bottomLine s \<noteq> None"
  using assms
  by (cases "topLine s"; cases "leftLine s"; cases "rightLine s"; cases "bottomLine s")
     (simp_all add: resize_def on_defs Let_def)

lemma update_alive:
  assumes "visible s" "topLine s = Some t" "leftLine s = Some l" "rightLine s = Some r" "bottomLine s = Some b"
  shows "update s = Inr (s\<lparr>
      currentTime := js_add (currentTime s) (speed s),
      topLine := Some (t\<lparr>tile_x := js_rem (js_add (currentTime s) (speed s))
                                      (js_add (dash s) (dashSpace s))\<rparr>),
      bottomLine := Some (b\<lparr>tile_x := js_rem (js_neg (js_add (currentTime s) (speed s)))
                                         (js_add (dash s) (dashSpace s))\<rparr>),
      leftLine := Some (l\<lparr>tile_y := js_rem (js_neg (js_add (currentTime s) (speed s)))
                                       (js_add (dash s) (dashSpace s))\<rparr>),
      rightLine := Some (r\<lparr>tile_y := js_rem (js_add (currentTime s) (speed s))
                                        (js_add (dash s) (dashSpace s))\<rparr>)\<rparr>)"
  using assms by (simp add: update_def on_defs strip_ops Let_def)

lemma destroy_alive:
  assumes "topLine s = Some t" "leftLine s = Some l" "rightLine s = Some r" "bottomLine s = Some b"
    "texture s = Some x"
  shows "destroy s = Inr (s\<lparr>children := [], destroyed := True, topLine := None, leftLine := None,
      rightLine := None, bottomLine := None, texture := None\<rparr>)"
  using assms by (simp add: destroy_def on_defs strip_ops removeChildren_def Container_destroy_def)

subsection \<open>Rounding is exact on the integers below \<open>2\<^sup>5\<^sup>3\<close>\<close>

lemma round_half_even_of_int: "round_half_even (of_int n) = n"
  by (simp add: round_half_even_def)

lemma binade_of_int:
  assumes "m \<noteq> 0"
  shows "binade (of_int m) = bitlen \<bar>m\<bar> - 1"
proof -
  have pos: "0 < \<bar>m\<bar>" using assms by simp
  have "\<bar>rat_of_int m\<bar> = rat_of_int \<bar>m\<bar>"
    by simp
  then have q: "quotient_of \<bar>rat_of_int m\<bar> = (\<bar>m\<bar>, 1)"
    by (simp only: quotient_of_rat_of_int)
  have b1: "bitlen 1 = 1"
    by (simp add: bitlen_alt_def)
  have ge: "1 \<le> bitlen \<bar>m\<bar>"
    using pos by (simp add: bitlen_alt_def)
  from bitlen_bounds [OF pos] have "2 ^ nat (bitlen \<bar>m\<bar> - 1) \<le> \<bar>m\<bar>" ..
  then have "rat_of_int (2 ^ nat (bitlen \<bar>m\<bar> - 1)) \<le> rat_of_int \<bar>m\<bar>"
    by (simp only: of_int_le_iff)
  then have "pow2 (bitlen \<bar>m\<bar> - 1) \<le> \<bar>rat_of_int m\<bar>"
    using ge by (simp add: pow2_def)
  then show ?thesis
    by (simp add: binade_def q b1)
qed

lemma round_double_of_int:
  assumes "\<bar>m\<bar> < 2 ^ 53"
  shows "round_double (of_int m) = Num (of_int m)"
proof (cases "m = 0")
  case True
  then show ?thesis by (simp add: round_double_def)
next
  case False
  then have pos: "0 < \<bar>m\<bar>" by simp
  define e where "e = bitlen \<bar>m\<bar> - 1"
  have ge: "0 \<le> e"
    using pos by (simp add: e_def bitlen_alt_def)
  from bitlen_bounds [OF pos] have "(2::int) ^ nat e \<le> \<bar>m\<bar>"
    by (simp add: e_def)
  with assms have "(2::int) ^ nat e < 2 ^ 53" by linarith
  then have "nat e < 53" by (rule power_less_imp_less_exp [rotated]) simp
  with ge have le: "e \<le> 52" by linarith
  have bin: "binade (of_int m) = e"
    using binade_of_int [OF False] by (simp add: e_def)
  define k where "k = nat (52 - e)"
  have ulp: "pow2 (e - 52) = 1 / 2 ^ k"
  proof (cases "e = 52")
    case True
    then show ?thesis by (simp add: pow2_def k_def)
  next
    case False
    with le have "e - 52 < 0" by simp
    then show ?thesis by (simp add: pow2_def k_def)
  qed
  have quot: "rat_of_int m / (1 / 2 ^ k) = rat_of_int (m * 2 ^ k)"
    by simp
  have undo: "rat_of_int (m * 2 ^ k) * (1 / 2 ^ k) = rat_of_int m"
    by simp
  have nz: "rat_of_int m \<noteq> 0" using False by simp
  have small: "\<not> 1024 \<le> binade (rat_of_int m)"
    using bin le by simp
  have mx: "max e (- 1022) = e" using ge by simp
  show ?thesis
    unfolding round_double_def Let_def bin mx ulp quot round_half_even_of_int undo
    using nz le by simp
qed

lemma is_double_of_int: "\<bar>m\<bar> < 2 ^ 53 \<Longrightarrow> is_double (of_int m)"
  by (simp add: is_double_def round_double_of_int)

lemma js_add_exact: "is_double (a + b) \<Longrightarrow> js_add (Num a) (Num b) = Num (a + b)"
  by (simp add: is_double_def)

lemma js_mul_exact: "is_double (a * b) \<Longrightarrow> js_mul (Num a) (Num b) = Num (a * b)"
  by (simp add: is_double_def)



subsection \<open>The remainder and the mathematical modulo\<close>

lemma js_rem_pos:
  "0 < p \<Longrightarrow>
     js_rem (Num a) (Num p) = Num (if 0 \<le> a then math_mod a p else - math_mod (- a) p)"
  by (auto simp: trunc_def math_mod_def zero_le_divide_iff ceiling_def)

lemma js_rem_nonneg: "0 < p \<Longrightarrow> 0 \<le> a \<Longrightarrow> js_rem (Num a) (Num p) = Num (math_mod a p)"
  by (simp add: js_rem_pos del: js_rem.simps)

lemma js_rem_negative:
  "0 < p \<Longrightarrow> a < 0 \<Longrightarrow> js_rem (Num a) (Num p) = Num (- math_mod (- a) p)"
  by (simp add: js_rem_pos del: js_rem.simps)

lemma js_rem_minus_nonneg:
  "0 < p \<Longrightarrow> 0 \<le> a \<Longrightarrow> js_rem (Num (- a)) (Num p) = Num (- math_mod a p)"
  by (cases "a = 0") (simp_all add: js_rem_pos math_mod_def del: js_rem.simps)

lemma js_rem_minus_negative:
  "0 < p \<Longrightarrow> a < 0 \<Longrightarrow> js_rem (Num (- a)) (Num p) = Num (math_mod (- a) p)"
  by (simp add: js_rem_pos del: js_rem.simps)

lemma js_rem_not_finite:
  "x = PosInf \<or> x = NegInf \<or> x = NaN \<Longrightarrow> js_rem x p = NaN \<and> js_rem (js_neg x) p = NaN"
  by auto

subsection \<open>update on a visible node\<close>

text \<open>
  Claim C1, as the code has it. For every live (not destroyed) state in which the node is
  visible, \<^verbatim>\<open>update()\<close> returns and sets \<^verbatim>\<open>_currentTime\<close> to the double sum of
  \<^verbatim>\<open>_currentTime\<close> and \<^verbatim>\<open>speed\<close>: exactly their sum whenever that sum is a double, rounded
  otherwise. It then sets the top x-offset and the right y-offset to
  \<^verbatim>\<open>currentTime % period\<close> and the bottom x-offset and the left y-offset to
  \<^verbatim>\<open>-currentTime % period\<close>, where \<^verbatim>\<open>period\<close> is the double sum of \<^verbatim>\<open>dash\<close> and \<^verbatim>\<open>dashSpace\<close>
  and \<^verbatim>\<open>%\<close> is the truncating remainder of the language. For a finite time that is not
  negative and a finite positive period, top and right are the mathematical
  \<open>t mod period\<close>, in \<open>[0, period)\<close>, and bottom and left are its negation
  \<open>- (t mod period)\<close>, in \<open>(-period, 0]\<close>; for a negative time the signs are exchanged.
  When the time is not finite, the four offsets are \<^verbatim>\<open>NaN\<close>.
\<close>

theorem update_visible_offsets:
  assumes "visible s" and "alive s"
  shows "\<exists>s'. update s = Inr s' \<and>
           currentTime s' = js_add (currentTime s) (speed s) \<and>
           (\<forall>T S. currentTime s = Num T \<and> speed s = Num S \<and> is_double (T + S) \<longrightarrow>
              currentTime s' = Num (T + S)) \<and>
           tile_offsets s' =
             (Some (js_rem (currentTime s') (js_add (dash s) (dashSpace s))),
              Some (js_rem (js_neg (currentTime s')) (js_add (dash s) (dashSpace s))),
              Some (js_rem (js_neg (currentTime s')) (js_add (dash s) (dashSpace s))),
              Some (js_rem (currentTime s') (js_add (dash s) (dashSpace s)))) \<and>
           (\<forall>T P. currentTime s' = Num T \<and> js_add (dash s) (dashSpace s) = Num P \<and>
                  0 < P \<and> 0 \<le> T \<longrightarrow>
              tile_offsets s' =
                (Some (Num (math_mod T P)), Some (Num (- math_mod T P)),
                 Some (Num (- math_mod T P)), Some (Num (math_mod T P)))) \<and>
           (\<forall>T P. currentTime s' = Num T \<and> js_add (dash s) (dashSpace s) = Num P \<and>
                  0 < P \<and> T < 0 \<longrightarrow>
              tile_offsets s' =
                (Some (Num (- math_mod (- T) P)), Some (Num (math_mod (- T) P)),
                 Some (Num (math_mod (- T) P)), Some (Num (- math_mod (- T) P)))) \<and>
           (currentTime s' = PosInf \<or> currentTime s' = NegInf \<or> currentTime s' = NaN \<longrightarrow>
              tile_offsets s' = (Some NaN, Some NaN, Some NaN, Some NaN))"
proof -
  from \<open>alive s\<close> obtain t l r b where
    refs: "topLine s = Some t" "leftLine s = Some l" "rightLine s = Some r" "bottomLine s = Some b"
    by (auto simp: alive_def)
  define T' where "T' = js_add (currentTime s) (speed s)"
  define p where "p = js_add (dash s) (dashSpace s)"
  define s' where "s' = s\<lparr>currentTime := T',
      topLine := Some (t\<lparr>tile_x := js_rem T' p\<rparr>),
      bottomLine := Some (b\<lparr>tile_x := js_rem (js_neg T') p\<rparr>),
      leftLine := Some (l\<lparr>tile_y := js_rem (js_neg T') p\<rparr>),
      rightLine := Some (r\<lparr>tile_y := js_rem T' p\<rparr>)\<rparr>"
  have upd: "update s = Inr s'"
    using update_alive [OF \<open>visible s\<close> refs] by (simp add: s'_def T'_def p_def)
  have time: "currentTime s' = T'"
    by (simp add: s'_def)
  have exact: "\<forall>T S. currentTime s = Num T \<and> speed s = Num S \<and> is_double (T + S) \<longrightarrow>
      T' = Num (T + S)"
    by (simp add: T'_def is_double_def)
  have offs: "tile_offsets s' =
      (Some (js_rem T' p), Some (js_rem (js_neg T') p), Some (js_rem (js_neg T') p),
       Some (js_rem T' p))"
    by (simp add: s'_def tile_offsets_def)
  have fwd: "\<forall>T P. T' = Num T \<and> p = Num P \<and> 0 < P \<and> 0 \<le> T \<longrightarrow> tile_offsets s' =
      (Some (Num (math_mod T P)), Some (Num (- math_mod T P)),
       Some (Num (- math_mod T P)), Some (Num (math_mod T P)))"
    by (simp add: offs js_rem_nonneg js_rem_minus_nonneg del: js_rem.simps)
  have bwd: "\<forall>T P. T' = Num T \<and> p = Num P \<and> 0 < P \<and> T < 0 \<longrightarrow> tile_offsets s' =
      (Some (Num (- math_mod (- T) P)), Some (Num (math_mod (- T) P)),
       Some (Num (math_mod (- T) P)), Some (Num (- math_mod (- T) P)))"
    by (simp add: offs js_rem_negative js_rem_minus_negative del: js_rem.simps)
  have inf: "T' = PosInf \<or> T' = NegInf \<or> T' = NaN \<longrightarrow>
      tile_offsets s' = (Some NaN, Some NaN, Some NaN, Some NaN)"
    using js_rem_not_finite [of T' p] by (simp add: offs)
  from upd time exact offs fwd bwd inf show ?thesis
    unfolding T'_def [symmetric] p_def [symmetric] by (intro exI [of _ s']) simp
qed

text \<open>
  The theorem at the freshly constructed default node: visible, alive, and after one update
  the time is the double \<^verbatim>\<open>0.2\<close> and the offsets are \<^verbatim>\<open>0.2, -0.2, -0.2, 0.2\<close>.
\<close>

theorem update_visible_offsets_witness:
  "visible (result_state (construct no_options [])) \<and>
   alive (result_state (construct no_options [])) \<and>
   (\<exists>s'. update (result_state (construct no_options [])) = Inr s' \<and>
      currentTime s' = round_double (1 / 5) \<and>
      tile_offsets s' =
        (Some (round_double (1 / 5)), Some (js_neg (round_double (1 / 5))),
         Some (js_neg (round_double (1 / 5))), Some (round_double (1 / 5))))"
proof -
  let ?s = "result_state (construct no_options [])"
  have v: "visible ?s" and a: "alive ?s"
    by code_simp+
  have c: "currentTime ?s = Num 0" "speed ?s = round_double (1 / 5)" "dash ?s = Num 2"
    "dashSpace ?s = Num 2"
    by code_simp+
  have n: "js_add (Num 0) (round_double (1 / 5)) = round_double (1 / 5)"
    "js_add (Num 2) (Num 2) = Num 4"
    by code_simp+
  have r: "js_rem (round_double (1 / 5)) (Num 4) = round_double (1 / 5)"
    "js_rem (js_neg (round_double (1 / 5))) (Num 4) = js_neg (round_double (1 / 5))"
    by code_simp+
  from update_visible_offsets [OF v a] obtain s' where
    u: "update ?s = Inr s'" and t: "currentTime s' = js_add (currentTime ?s) (speed ?s)" and
    o: "tile_offsets s' =
       (Some (js_rem (currentTime s') (js_add (dash ?s) (dashSpace ?s))),
        Some (js_rem (js_neg (currentTime s')) (js_add (dash ?s) (dashSpace ?s))),
        Some (js_rem (js_neg (currentTime s')) (js_add (dash ?s) (dashSpace ?s))),
        Some (js_rem (currentTime s') (js_add (dash ?s) (dashSpace ?s))))"
    by blast
  have ct: "currentTime s' = round_double (1 / 5)"
    unfolding t c n ..
  have "tile_offsets s' =
      (Some (round_double (1 / 5)), Some (js_neg (round_double (1 / 5))),
       Some (js_neg (round_double (1 / 5))), Some (round_double (1 / 5)))"
    unfolding o ct c n r ..
  with u ct have "update ?s = Inr s' \<and> currentTime s' = round_double (1 / 5) \<and>
      tile_offsets s' =
        (Some (round_double (1 / 5)), Some (js_neg (round_double (1 / 5))),
         Some (js_neg (round_double (1 / 5))), Some (round_double (1 / 5)))"
    by blast
  with v a show ?thesis by blast
qed

text \<open>
  Claim C1 as stated (every offset the mathematical modulo, in \<open>[0, period)\<close>) fails on the
  default node: after one update the bottom and left offsets are \<^verbatim>\<open>-0.2\<close>, below zero,
  where the specification's reading gives \<open>4 - 0.2\<close>.
\<close>

theorem update_offsets_counterexample:
  "visible (result_state (construct no_options [])) \<and>
   alive (result_state (construct no_options [])) \<and>
   tile_offsets (result_state (update (result_state (construct no_options [])))) =
     (Some (round_double (1 / 5)), Some (js_neg (round_double (1 / 5))),
      Some (js_neg (round_double (1 / 5))), Some (round_double (1 / 5))) \<and>
   tile_offsets (result_state (update (result_state (construct no_options [])))) \<noteq>
   spec_offsets (result_state (update (result_state (construct no_options []))))"
  by code_simp

subsection \<open>The end-to-end example\<close>

text \<open>
  Claim C2 as stated fails at its offsets: after one update the bottom and left offsets are
  not \<^verbatim>\<open>7.8\<close>.
\<close>

theorem marquee_example_counterexample:
  "tile_offsets (result_state (session marquee_opts [] [Update])) \<noteq>
     (Some (round_double (1 / 5)), Some (round_double (39 / 5)), Some (round_double (39 / 5)),
      Some (round_double (1 / 5)))"
  by code_simp

text \<open>
  Claim C2, as the code has it. Constructed with
  \<^verbatim>\<open>{width: 100, height: 50, thickness: 2, dash: 4, dashSpace: 4, speed: 0.2}\<close>, the top
  strip is at \<open>(-2, -2)\<close> with size \<open>104 \<times> 2\<close>, the bottom strip at \<open>(-2, 50)\<close> with size
  \<open>104 \<times> 2\<close>, the left strip at \<open>(-2, 0)\<close> with size \<open>2 \<times> 50\<close>, the right strip at
  \<open>(100, 0)\<close> with size \<open>2 \<times> 50\<close>; the node is visible, and after exactly one
  \<^verbatim>\<open>update()\<close> the top offset is \<^verbatim>\<open>0.2\<close>, the bottom offset \<^verbatim>\<open>-0.2\<close>, the left offset
  \<^verbatim>\<open>-0.2\<close> and the right offset \<^verbatim>\<open>0.2\<close>, the layout being as before. Here \<^verbatim>\<open>0.2\<close> is the
  double of that literal.
\<close>

theorem marquee_example:
  "threw (construct marquee_opts []) = None \<and>
   layout (result_state (construct marquee_opts [])) =
     (Some (Num (- 2), Num (- 2), Num 104, Num 2), Some (Num (- 2), Num 50, Num 104, Num 2),
      Some (Num (- 2), Num 0, Num 2, Num 50), Some (Num 100, Num 0, Num 2, Num 50)) \<and>
   visible (result_state (construct marquee_opts [])) \<and>
   threw (session marquee_opts [] [Update]) = None \<and>
   round_double (1 / 5) = Num (3602879701896397 / 18014398509481984) \<and>
   tile_offsets (result_state (session marquee_opts [] [Update])) =
     (Some (round_double (1 / 5)), Some (js_neg (round_double (1 / 5))),
      Some (js_neg (round_double (1 / 5))), Some (round_double (1 / 5))) \<and>
   layout (result_state (session marquee_opts [] [Update])) =
     layout (result_state (construct marquee_opts []))"
  by code_simp

subsection \<open>update on a hidden node\<close>

text \<open>
  Claim C6. For every state in which the node is not visible, \<^verbatim>\<open>update()\<close> returns and
  leaves the whole state as it was: \<^verbatim>\<open>_currentTime\<close>, the four tile offsets and every
  other field.
\<close>

theorem update_hidden_noop:
  "\<not> visible s \<Longrightarrow> update s = Inr s"
  by (simp add: update_def)

text \<open>The theorem at the default node after \<^verbatim>\<open>visible = false\<close>.\<close>

theorem update_hidden_noop_witness:
  "\<not> visible (result_state (session no_options [] [SetVisible False])) \<and>
   session no_options [] [SetVisible False, Update] = session no_options [] [SetVisible False]"
proof -
  have v: "\<not> visible (result_state (session no_options [] [SetVisible False]))"
    by code_simp
  have r: "session no_options [] [SetVisible False]
           = Inr (result_state (session no_options [] [SetVisible False]))"
    by code_simp
  have "session no_options [] [SetVisible False, Update]
        = update (result_state (session no_options [] [SetVisible False]))"
    by code_simp
  with update_hidden_noop [OF v] r v show ?thesis by simp
qed

subsection \<open>destroy and the shared ticker\<close>

text \<open>
  Claim C3 says that after \<^verbatim>\<open>destroy()\<close> the shared ticker no longer calls the node's
  \<^verbatim>\<open>update\<close>. The code does not deregister: for the default node (\<^verbatim>\<open>autoUpdate\<close> true),
  \<^verbatim>\<open>destroy()\<close> returns with the listener still in the ticker, and the next frame calls
  \<^verbatim>\<open>update\<close>, which advances \<^verbatim>\<open>_currentTime\<close> from \<open>0\<close> to \<^verbatim>\<open>0.2\<close> and then throws a
  \<^verbatim>\<open>TypeError\<close> at the first strip reference.
\<close>

theorem destroy_leaves_listener:
  "threw (session no_options [] [Destroy]) = None \<and>
   ticker (result_state (session no_options [] [Destroy])) = [ThisUpdate] \<and>
   currentTime (result_state (session no_options [] [Destroy])) = Num 0 \<and>
   threw (session no_options [] [Destroy, Tick]) = Some TypeError \<and>
   currentTime (result_state (session no_options [] [Destroy, Tick])) = round_double (1 / 5)"
  by code_simp

subsection \<open>An invariant of every session\<close>

lemma seq_preserves:
  assumes "\<And>st a a'. st \<in> set sts \<Longrightarrow> P a \<Longrightarrow> st a = Inr a' \<Longrightarrow> P a'"
    and "P s" and "seq sts s = Inr s'"
  shows "P s'"
  using assms
proof (induction sts arbitrary: s)
  case Nil
  then show ?case by simp
next
  case (Cons st sts)
  from Cons.prems(3) obtain s1 where st: "st s = Inr s1" and rest: "seq sts s1 = Inr s'"
    by (auto split: sum.splits)
  have head: "P s1"
    using Cons.prems(1) [of st s s1] Cons.prems(2) st by simp
  have step: "\<And>st' a a'. st' \<in> set sts \<Longrightarrow> P a \<Longrightarrow> st' a = Inr a' \<Longrightarrow> P a'"
    using Cons.prems(1) by (meson list.set_intros(2))
  show ?case
    by (rule Cons.IH [OF step head rest])
qed

lemma update_Inr_alive:
  assumes "visible s" and "update s = Inr s'"
  shows "topLine s \<noteq> None \<and> leftLine s \<noteq> None \<and> rightLine s \<noteq> None \<and> bottomLine s \<noteq> None"
  using assms
  by (cases "topLine s"; cases "leftLine s"; cases "rightLine s"; cases "bottomLine s")
     (simp_all add: update_def on_defs Let_def)

lemma destroy_Inr_alive:
  assumes "destroy s = Inr s'"
  shows "alive s"
  using assms
  by (cases "topLine s"; cases "leftLine s"; cases "rightLine s"; cases "bottomLine s";
      cases "texture s")
     (simp_all add: destroy_def on_defs alive_def)

lemma resize_cross:
  assumes "cross_ok s" and "resize w h s = Inr s'"
  shows "cross_ok s' \<and> thickness s' = thickness s \<and> texture s' = texture s"
proof -
  from resize_Inr_alive [OF assms(2)] obtain t l r b where
    refs: "topLine s = Some t" "leftLine s = Some l" "rightLine s = Some r" "bottomLine s = Some b"
    by auto
  from assms resize_alive [OF refs, of w h] show ?thesis
    by (auto simp: cross_ok_def refs)
qed

lemma update_cross:
  assumes "cross_ok s" and "update s = Inr s'"
  shows "cross_ok s' \<and> thickness s' = thickness s \<and> texture s' = texture s"
proof (cases "visible s")
  case False
  with assms show ?thesis by (simp add: update_def)
next
  case True
  from update_Inr_alive [OF True assms(2)] obtain t l r b where
    refs: "topLine s = Some t" "leftLine s = Some l" "rightLine s = Some r" "bottomLine s = Some b"
    by auto
  from assms update_alive [OF True refs] show ?thesis
    by (auto simp: cross_ok_def refs)
qed

lemma destroy_cross:
  assumes "destroy s = Inr s'"
  shows "cross_ok s' \<and> thickness s' = thickness s \<and> texture s' = None"
proof -
  from destroy_Inr_alive [OF assms] obtain t l r b x where
    refs: "topLine s = Some t" "leftLine s = Some l" "rightLine s = Some r" "bottomLine s = Some b"
      "texture s = Some x"
    by (auto simp: alive_def)
  from assms destroy_alive [OF refs] show ?thesis
    by (auto simp: cross_ok_def)
qed

lemma emit_all_cross:
  "cross_ok s \<Longrightarrow> emit_all ls s = Inr s' \<Longrightarrow>
     cross_ok s' \<and> thickness s' = thickness s \<and> texture s' = texture s"
proof (induction ls s rule: emit_all.induct)
  case (1 s)
  then show ?case by simp
next
  case (2 ls s)
  from "2.prems"(2) obtain s1 where u: "update s = Inr s1" and e: "emit_all ls s1 = Inr s'"
    by (auto split: sum.splits)
  from update_cross [OF "2.prems"(1) u] "2.IH" [OF u _ e] show ?case
    by simp
next
  case (3 k ls s)
  then show ?case by simp
qed

lemma set_autoUpdate_fields:
  "thickness (set_autoUpdate v s) = thickness s"
  "dash (set_autoUpdate v s) = dash s"
  "dashSpace (set_autoUpdate v s) = dashSpace s"
  "speed (set_autoUpdate v s) = speed s"
  "topLine (set_autoUpdate v s) = topLine s"
  "leftLine (set_autoUpdate v s) = leftLine s"
  "rightLine (set_autoUpdate v s) = rightLine s"
  "bottomLine (set_autoUpdate v s) = bottomLine s"
  "texture (set_autoUpdate v s) = texture s"
  "currentTime (set_autoUpdate v s) = currentTime s"
  "visible (set_autoUpdate v s) = visible s"
  "children (set_autoUpdate v s) = children s"
  "destroyed (set_autoUpdate v s) = destroyed s"
  "autoUpdate (set_autoUpdate v s) = v"
  by (simp_all add: set_autoUpdate_def Let_def)

lemma exec_cross:
  assumes "cross_ok s" and "exec op s = Inr s'"
  shows "cross_ok s' \<and> thickness s' = thickness s \<and>
         (texture s' = texture s \<or> texture s' = None)"
proof (cases op)
  case (Resize w h)
  with assms(2) have "resize w h s = Inr s'" by simp
  from resize_cross [OF assms(1) this] show ?thesis by simp
next
  case Update
  with assms(2) have "update s = Inr s'" by simp
  from update_cross [OF assms(1) this] show ?thesis by simp
next
  case (SetAutoUpdate v)
  with assms(2) have "s' = set_autoUpdate v s" by simp
  with assms(1) show ?thesis by (simp add: cross_ok_def set_autoUpdate_fields)
next
  case (SetVisible v)
  with assms(2) have "s' = s\<lparr>visible := v\<rparr>" by simp
  with assms(1) show ?thesis by (simp add: cross_ok_def)
next
  case Destroy
  with assms(2) have "destroy s = Inr s'" by simp
  from destroy_cross [OF this] show ?thesis by simp
next
  case Tick
  with assms(2) have "emit_all (ticker s) s = Inr s'" by (simp add: tick_def)
  from emit_all_cross [OF assms(1) this] show ?thesis by simp
qed

lemma run_cross:
  assumes "cross_ok s" and "run ops s = Inr s'"
  shows "cross_ok s' \<and> thickness s' = thickness s \<and>
         (texture s' = texture s \<or> texture s' = None)"
proof -
  let ?P = "\<lambda>x. cross_ok x \<and> thickness x = thickness s \<and>
                 (texture x = texture s \<or> texture x = None)"
  have "?P s'"
  proof (rule seq_preserves [where P = ?P and sts = "map exec ops" and s = s])
    fix st a a'
    assume mem: "st \<in> set (map exec ops)" and pa: "?P a" and ret: "st a = Inr a'"
    from mem obtain op where "st = exec op" by auto
    with ret have "exec op a = Inr a'" by simp
    from exec_cross [OF _ this] pa show "?P a'" by auto
  next
    show "?P s" using assms(1) by simp
  next
    show "seq (map exec ops) s = Inr s'" using assms(2) by (simp add: run_def)
  qed
  then show ?thesis .
qed

lemma construct_value:
  assumes "dflt white (opt_color opts) = Resolves c"
  shows "\<exists>s. construct opts tk = Inr s \<and> alive s \<and> cross_ok s \<and>
       thickness s = dflt (Num 2) (opt_thickness opts) \<and>
       dash s = dflt (Num 2) (opt_dash opts) \<and>
       dashSpace s = dflt (Num 2) (opt_dashSpace opts) \<and>
       texture s = Some (dash_texture c (dash s) (dashSpace s)) \<and>
       map_option strip_texture (topLine s) = texture s \<and>
       map_option strip_texture (leftLine s) = texture s \<and>
       map_option strip_texture (rightLine s) = texture s \<and>
       map_option strip_texture (bottomLine s) = texture s"
  using assms
  by (simp add: construct_def Let_def resize_def on_defs strip_ops TilingSprite_def
      addChild_def set_autoUpdate_def alive_def cross_ok_def)

lemma construct_unresolvable:
  assumes "dflt white (opt_color opts) = Unresolvable"
  shows "threw (construct opts tk) = Some ColorError \<and>
         \<not> alive (result_state (construct opts tk)) \<and>
         ticker (result_state (construct opts tk)) = tk"
  using assms by (simp add: construct_def Let_def threw_def result_state_def alive_def)

lemma session_cross:
  assumes "session opts tk ops = Inr s"
  shows "cross_ok s \<and> thickness s = dflt (Num 2) (opt_thickness opts)"
proof (cases "dflt white (opt_color opts)")
  case Unresolvable
  from construct_unresolvable [OF this, of tk] obtain e s0 where
    "construct opts tk = Inl (e, s0)"
    by (cases "construct opts tk") (auto simp: threw_def)
  with assms show ?thesis by (simp add: session_def)
next
  case (Resolves c)
  from construct_value [OF this, of tk] obtain s0 where
    c: "construct opts tk = Inr s0" and ok: "cross_ok s0"
    and th: "thickness s0 = dflt (Num 2) (opt_thickness opts)"
    by blast
  from assms c have "run ops s0 = Inr s"
    by (simp add: session_def)
  from run_cross [OF ok this] th show ?thesis by simp
qed

subsection \<open>The layout after resize\<close>

text \<open>
  Claim C4 as stated fails in the arithmetic of the language: with width, height and
  thickness all the double \<^verbatim>\<open>0.1\<close>, \<^verbatim>\<open>resize\<close> returns, but the width of the top strip is
  the rounded sum \<^verbatim>\<open>0.30000000000000004\<close>, not \<open>width + 2t\<close>, and the outer box does not
  end at \<open>(width + t, height + t)\<close>.
\<close>

theorem resize_layout_counterexample:
  "round_double (1 / 10) = Num tenth \<and> 0 \<le> tenth \<and>
   thickness (result_state (construct tenth_opts [])) = Num tenth \<and>
   alive (result_state (construct tenth_opts [])) \<and>
   threw (resize (Num tenth) (Num tenth) (result_state (construct tenth_opts []))) = None \<and>
   map_option width
     (topLine (result_state (resize (Num tenth) (Num tenth)
        (result_state (construct tenth_opts []))))) \<noteq> Some (Num (tenth + 2 * tenth)) \<and>
   outer_box (result_state (resize (Num tenth) (Num tenth)
       (result_state (construct tenth_opts [])))) \<noteq>
     Some ((- tenth, - tenth), (tenth + tenth, tenth + tenth))"
  by code_simp

text \<open>
  Claim C4, as the code has it. For every live node reached by constructing and operating
  on it, with a finite thickness \<open>t \<ge> 0\<close> (the thickness given at construction), and every
  finite \<open>width \<ge> 0\<close> and \<open>height \<ge> 0\<close>, \<^verbatim>\<open>resize(width, height)\<close> returns and leaves the
  top strip at \<open>(-t, -t)\<close> with size \<open>W \<times> t\<close>, the bottom strip at \<open>(-t, height)\<close> with size
  \<open>W \<times> t\<close>, the left strip at \<open>(-t, 0)\<close> with size \<open>t \<times> height\<close> and the right strip at
  \<open>(width, 0)\<close> with size \<open>t \<times> height\<close>, where \<open>W\<close> is \<^verbatim>\<open>width + t * 2\<close> in the arithmetic of
  the language. Whenever \<open>t * 2\<close> and \<open>width + t * 2\<close> are doubles, so that nothing is
  rounded, \<open>W\<close> is \<open>width + 2t\<close> and the outer bounding box of the four strips spans
  \<open>(-t, -t)\<close> to \<open>(width + t, height + t)\<close>.
\<close>

theorem resize_layout:
  assumes "session opts tk ops = Inr s" and "alive s" and "thickness s = Num t"
    and "0 \<le> w" and "0 \<le> h" and "0 \<le> t"
  shows "\<exists>s'. resize (Num w) (Num h) s = Inr s' \<and>
           thickness s = dflt (Num 2) (opt_thickness opts) \<and>
           layout s' =
             (Some (Num (- t), Num (- t), js_add (Num w) (js_mul (Num t) (Num 2)), Num t),
              Some (Num (- t), Num h, js_add (Num w) (js_mul (Num t) (Num 2)), Num t),
              Some (Num (- t), Num 0, Num t, Num h),
              Some (Num w, Num 0, Num t, Num h)) \<and>
           (is_double (t * 2) \<and> is_double (w + t * 2) \<longrightarrow>
              js_add (Num w) (js_mul (Num t) (Num 2)) = Num (w + 2 * t) \<and>
              outer_box s' = Some ((- t, - t), (w + t, h + t)))"
proof -
  from \<open>alive s\<close> obtain tl l r b where
    refs: "topLine s = Some tl" "leftLine s = Some l" "rightLine s = Some r"
      "bottomLine s = Some b"
    by (auto simp: alive_def)
  from session_cross [OF assms(1)] have ok: "cross_ok s"
    and th: "thickness s = dflt (Num 2) (opt_thickness opts)"
    by simp_all
  from ok refs have cross: "height tl = Num t" "height b = Num t"
    "width l = Num t" "width r = Num t"
    by (simp_all add: cross_ok_def assms(3))
  define W where "W = js_add (Num w) (js_mul (Num t) (Num 2))"
  define s' where "s' = s\<lparr>
      topLine := Some (tl\<lparr>pos_x := Num (- t), pos_y := Num (- t), width := W\<rparr>),
      leftLine := Some (l\<lparr>pos_x := Num (- t), pos_y := Num 0, height := Num h\<rparr>),
      rightLine := Some (r\<lparr>pos_x := Num w, pos_y := Num 0, height := Num h\<rparr>),
      bottomLine := Some (b\<lparr>pos_x := Num (- t), pos_y := Num h, width := W\<rparr>)\<rparr>"
  have res: "resize (Num w) (Num h) s = Inr s'"
    unfolding resize_alive [OF refs] by (simp add: s'_def W_def assms(3))
  have lay: "layout s' =
             (Some (Num (- t), Num (- t), W, Num t),
              Some (Num (- t), Num h, W, Num t),
              Some (Num (- t), Num 0, Num t, Num h),
              Some (Num w, Num 0, Num t, Num h))"
    by (simp add: s'_def layout_def geometry_def cross)
  have exact: "is_double (t * 2) \<and> is_double (w + t * 2) \<longrightarrow>
      W = Num (w + 2 * t) \<and> outer_box s' = Some ((- t, - t), (w + t, h + t))"
  proof
    assume ex: "is_double (t * 2) \<and> is_double (w + t * 2)"
    then have m: "js_mul (Num t) (Num 2) = Num (t * 2)"
      by (simp add: is_double_def)
    from ex have Wv: "W = Num (w + t * 2)"
      unfolding W_def m by (simp add: is_double_def)
    have box: "outer_box s' = Some ((- t, - t), (w + t, h + t))"
      using assms(4-6)
      by (simp add: s'_def Wv outer_box_def strip_box_def join_box_def cross min_def max_def)
    from Wv box show "W = Num (w + 2 * t) \<and> outer_box s' = Some ((- t, - t), (w + t, h + t))"
      by (simp add: mult.commute)
  qed
  from res th lay exact show ?thesis
    unfolding W_def by blast
qed

text \<open>
  The theorem at the example node after one update, resized to \<open>30 \<times> 40\<close>: nothing is
  rounded, and the box spans \<open>(-2, -2)\<close> to \<open>(32, 42)\<close>.
\<close>

theorem resize_layout_witness:
  "session marquee_opts [] [Update] = Inr (result_state (session marquee_opts [] [Update])) \<and>
   alive (result_state (session marquee_opts [] [Update])) \<and>
   thickness (result_state (session marquee_opts [] [Update])) = Num 2 \<and>
   (0::rat) \<le> 30 \<and> (0::rat) \<le> 40 \<and> (0::rat) \<le> 2 \<and>
   is_double (2 * 2) \<and> is_double (30 + 2 * 2) \<and>
   (\<exists>s'. resize (Num 30) (Num 40) (result_state (session marquee_opts [] [Update])) = Inr s' \<and>
      layout s' =
        (Some (Num (- 2), Num (- 2), Num 34, Num 2), Some (Num (- 2), Num 40, Num 34, Num 2),
         Some (Num (- 2), Num 0, Num 2, Num 40), Some (Num 30, Num 0, Num 2, Num 40)) \<and>
      outer_box s' = Some ((- 2, - 2), (32, 42)))"
proof -
  let ?s = "result_state (session marquee_opts [] [Update])"
  have r: "session marquee_opts [] [Update] = Inr ?s" and a: "alive ?s"
    and t: "thickness ?s = Num 2"
    by code_simp+
  have w: "(0::rat) \<le> 30" and h: "(0::rat) \<le> 40" and p: "(0::rat) \<le> 2"
    by simp_all
  have d: "is_double (2 * 2)" "is_double (30 + 2 * 2)"
    by code_simp+
  from resize_layout [OF r a t w h p] obtain s' where
    res: "resize (Num 30) (Num 40) ?s = Inr s'" and
    lay: "layout s' =
       (Some (Num (- 2), Num (- 2), js_add (Num 30) (js_mul (Num 2) (Num 2)), Num 2),
        Some (Num (- 2), Num 40, js_add (Num 30) (js_mul (Num 2) (Num 2)), Num 2),
        Some (Num (- 2), Num 0, Num 2, Num 40),
        Some (Num 30, Num 0, Num 2, Num 40))" and
    ex: "is_double (2 * 2) \<and> is_double (30 + 2 * 2) \<longrightarrow>
       js_add (Num 30) (js_mul (Num 2) (Num 2)) = Num (30 + 2 * 2) \<and>
       outer_box s' = Some ((- 2, - 2), (30 + 2, 40 + 2))"
    by blast
  from ex d have W: "js_add (Num 30) (js_mul (Num 2) (Num 2)) = Num (30 + 2 * 2)"
    and box: "outer_box s' = Some ((- 2, - 2), (30 + 2, 40 + 2))"
    by blast+
  have "resize (Num 30) (Num 40) ?s = Inr s' \<and>
      layout s' =
        (Some (Num (- 2), Num (- 2), Num 34, Num 2), Some (Num (- 2), Num 40, Num 34, Num 2),
         Some (Num (- 2), Num 0, Num 2, Num 40), Some (Num 30, Num 0, Num 2, Num 40)) \<and>
      outer_box s' = Some ((- 2, - 2), (32, 42))"
    using res box unfolding lay W by simp
  with r a t w h p d show ?thesis by blast
qed

subsection \<open>resize is idempotent and determines the layout\<close>

lemma resize_layout_of:
  assumes "cross_ok s" and "alive s"
  shows "\<exists>s'. resize w h s = Inr s' \<and>
           layout s' =
             (Some (js_neg (thickness s), js_neg (thickness s),
                    js_add w (js_mul (thickness s) (Num 2)), thickness s),
              Some (js_neg (thickness s), h, js_add w (js_mul (thickness s) (Num 2)), thickness s),
              Some (js_neg (thickness s), Num 0, thickness s, h),
              Some (w, Num 0, thickness s, h))"
proof -
  from \<open>alive s\<close> obtain t l r b where
    refs: "topLine s = Some t" "leftLine s = Some l" "rightLine s = Some r" "bottomLine s = Some b"
    by (auto simp: alive_def)
  from \<open>cross_ok s\<close> refs have cross: "height t = thickness s" "height b = thickness s"
    "width l = thickness s" "width r = thickness s"
    by (simp_all add: cross_ok_def)
  show ?thesis
    unfolding resize_alive [OF refs] by (simp add: layout_def geometry_def cross)
qed

lemma resize_twice:
  assumes "resize w h s = Inr s'"
  shows "resize w h s' = Inr s'"
proof -
  from resize_Inr_alive [OF assms] obtain t l r b where
    refs: "topLine s = Some t" "leftLine s = Some l" "rightLine s = Some r" "bottomLine s = Some b"
    by auto
  from assms have s': "s' = s\<lparr>
      topLine := Some (t\<lparr>pos_x := js_neg (thickness s), pos_y := js_neg (thickness s),
          width := js_add w (js_mul (thickness s) (Num 2))\<rparr>),
      leftLine := Some (l\<lparr>pos_x := js_neg (thickness s), pos_y := Num 0, height := h\<rparr>),
      rightLine := Some (r\<lparr>pos_x := w, pos_y := Num 0, height := h\<rparr>),
      bottomLine := Some (b\<lparr>pos_x := js_neg (thickness s), pos_y := h,
          width := js_add w (js_mul (thickness s) (Num 2))\<rparr>)\<rparr>"
    unfolding resize_alive [OF refs] by simp
  have "topLine s' = Some (t\<lparr>pos_x := js_neg (thickness s), pos_y := js_neg (thickness s),
          width := js_add w (js_mul (thickness s) (Num 2))\<rparr>)"
    "leftLine s' = Some (l\<lparr>pos_x := js_neg (thickness s), pos_y := Num 0, height := h\<rparr>)"
    "rightLine s' = Some (r\<lparr>pos_x := w, pos_y := Num 0, height := h\<rparr>)"
    "bottomLine s' = Some (b\<lparr>pos_x := js_neg (thickness s), pos_y := h,
          width := js_add w (js_mul (thickness s) (Num 2))\<rparr>)"
    by (simp_all add: s')
  from resize_alive [OF this, of w h] show ?thesis
    by (simp add: s')
qed

text \<open>
  Claim C8. For every width and height and every state, calling \<^verbatim>\<open>resize(width, height)\<close>
  twice in succession is the same as calling it once: it leaves exactly the same state,
  so the same strip positions and sizes. And the layout it leaves is determined by the
  thickness, the width and the height alone: two live nodes of the same thickness, however
  they were constructed and whatever was done to them, have the same layout after
  \<^verbatim>\<open>resize(width, height)\<close>, which returns on both.
\<close>

theorem resize_idempotent:
  "seq [resize w h, resize w h] s = resize w h s \<and>
   (session opts1 tk1 ops1 = Inr s1 \<and> session opts2 tk2 ops2 = Inr s2 \<and>
    alive s1 \<and> alive s2 \<and> thickness s1 = thickness s2 \<longrightarrow>
      threw (resize w h s1) = None \<and> threw (resize w h s2) = None \<and>
      layout (result_state (resize w h s1)) = layout (result_state (resize w h s2)))"
proof
  show "seq [resize w h, resize w h] s = resize w h s"
  proof (cases "resize w h s")
    case (Inl e)
    then show ?thesis by simp
  next
    case (Inr s')
    with resize_twice [OF Inr] show ?thesis by simp
  qed
next
  show "session opts1 tk1 ops1 = Inr s1 \<and> session opts2 tk2 ops2 = Inr s2 \<and>
    alive s1 \<and> alive s2 \<and> thickness s1 = thickness s2 \<longrightarrow>
      threw (resize w h s1) = None \<and> threw (resize w h s2) = None \<and>
      layout (result_state (resize w h s1)) = layout (result_state (resize w h s2))"
  proof
    assume h: "session opts1 tk1 ops1 = Inr s1 \<and> session opts2 tk2 ops2 = Inr s2 \<and>
      alive s1 \<and> alive s2 \<and> thickness s1 = thickness s2"
    then have ok1: "cross_ok s1" and ok2: "cross_ok s2"
      using session_cross by blast+
    from h have a1: "alive s1" and a2: "alive s2" and th: "thickness s1 = thickness s2"
      by simp_all
    from resize_layout_of [OF ok1 a1, of w h] obtain s1' where
      r1: "resize w h s1 = Inr s1'" and l1: "layout s1' =
             (Some (js_neg (thickness s1), js_neg (thickness s1),
                    js_add w (js_mul (thickness s1) (Num 2)), thickness s1),
              Some (js_neg (thickness s1), h, js_add w (js_mul (thickness s1) (Num 2)), thickness s1),
              Some (js_neg (thickness s1), Num 0, thickness s1, h),
              Some (w, Num 0, thickness s1, h))"
      by blast
    from resize_layout_of [OF ok2 a2, of w h] obtain s2' where
      r2: "resize w h s2 = Inr s2'" and l2: "layout s2' =
             (Some (js_neg (thickness s2), js_neg (thickness s2),
                    js_add w (js_mul (thickness s2) (Num 2)), thickness s2),
              Some (js_neg (thickness s2), h, js_add w (js_mul (thickness s2) (Num 2)), thickness s2),
              Some (js_neg (thickness s2), Num 0, thickness s2, h),
              Some (w, Num 0, thickness s2, h))"
      by blast
    show "threw (resize w h s1) = None \<and> threw (resize w h s2) = None \<and>
      layout (result_state (resize w h s1)) = layout (result_state (resize w h s2))"
      by (simp add: r1 r2 l1 l2 th threw_def result_state_def)
  qed
qed

text \<open>
  The theorem at two nodes of thickness 2 with different histories and different layouts:
  after \<^verbatim>\<open>resize(30, 40)\<close> their layouts are equal.
\<close>

theorem resize_idempotent_witness:
  "session marquee_opts [] [Update] = Inr (result_state (session marquee_opts [] [Update])) \<and>
   session no_options [Foreign 3] [Resize (Num 5) (Num 5), SetVisible False]
     = Inr (result_state (session no_options [Foreign 3] [Resize (Num 5) (Num 5), SetVisible False])) \<and>
   alive (result_state (session marquee_opts [] [Update])) \<and>
   alive (result_state (session no_options [Foreign 3] [Resize (Num 5) (Num 5), SetVisible False])) \<and>
   thickness (result_state (session marquee_opts [] [Update])) =
     thickness (result_state (session no_options [Foreign 3] [Resize (Num 5) (Num 5), SetVisible False])) \<and>
   layout (result_state (resize (Num 30) (Num 40) (result_state (session marquee_opts [] [Update])))) =
     layout (result_state (resize (Num 30) (Num 40)
       (result_state (session no_options [Foreign 3] [Resize (Num 5) (Num 5), SetVisible False])))) \<and>
   layout (result_state (session marquee_opts [] [Update])) \<noteq>
     layout (result_state (session no_options [Foreign 3] [Resize (Num 5) (Num 5), SetVisible False]))"
proof -
  let ?s1 = "result_state (session marquee_opts [] [Update])"
  let ?s2 = "result_state (session no_options [Foreign 3] [Resize (Num 5) (Num 5), SetVisible False])"
  have h: "session marquee_opts [] [Update] = Inr ?s1"
    "session no_options [Foreign 3] [Resize (Num 5) (Num 5), SetVisible False] = Inr ?s2"
    "alive ?s1" "alive ?s2" "thickness ?s1 = thickness ?s2"
    by code_simp+
  have d: "layout ?s1 \<noteq> layout ?s2"
    by code_simp
  from resize_idempotent [of "Num 30" "Num 40" ?s1 marquee_opts "[]" "[Update]" ?s1
      no_options "[Foreign 3]" "[Resize (Num 5) (Num 5), SetVisible False]" ?s2] h
  have "layout (result_state (resize (Num 30) (Num 40) ?s1)) = layout (result_state (resize (Num 30) (Num 40) ?s2))"
    by blast
  with h d show ?thesis by blast
qed

subsection \<open>The frame of resize\<close>

text \<open>
  Claim C9. In every state, \<^verbatim>\<open>resize(width, height)\<close> writes only the positions of the four
  strips and their lengths along the edge (the width of top and bottom, the height of left
  and right): apart from these the state after the call is the state before it. In
  particular \<^verbatim>\<open>_currentTime\<close>, the four tile offsets, the texture, the listeners of the
  shared ticker, the \<^verbatim>\<open>autoUpdate\<close> flag and the cross-axis sizes (the height of top and
  bottom, the width of left and right) are unchanged.
\<close>

theorem resize_frame:
  "forget_layout (result_state (resize w h s)) = forget_layout s \<and>
   currentTime (result_state (resize w h s)) = currentTime s \<and>
   tile_offsets (result_state (resize w h s)) = tile_offsets s \<and>
   texture (result_state (resize w h s)) = texture s \<and>
   ticker (result_state (resize w h s)) = ticker s \<and>
   autoUpdate (result_state (resize w h s)) = autoUpdate s \<and>
   map_option height (topLine (result_state (resize w h s))) = map_option height (topLine s) \<and>
   map_option height (bottomLine (result_state (resize w h s))) = map_option height (bottomLine s) \<and>
   map_option width (leftLine (result_state (resize w h s))) = map_option width (leftLine s) \<and>
   map_option width (rightLine (result_state (resize w h s))) = map_option width (rightLine s)"
  by (cases "topLine s"; cases "leftLine s"; cases "rightLine s"; cases "bottomLine s")
     (simp_all add: resize_def on_defs strip_ops Let_def result_state_def forget_layout_def
        tile_offsets_def)

subsection \<open>Use after destroy\<close>

text \<open>
  Claim C10 as stated (any \<^verbatim>\<open>resize()\<close> or \<^verbatim>\<open>update()\<close> on a destroyed node fails) does not
  hold for \<^verbatim>\<open>update()\<close>: on a node constructed hidden and then destroyed, the references
  are gone and \<^verbatim>\<open>update()\<close> returns normally, without an error and without any change.
\<close>

theorem use_after_destroy_counterexample:
  "threw (session hidden_opts [] [Destroy]) = None \<and>
   topLine (result_state (session hidden_opts [] [Destroy])) = None \<and>
   texture (result_state (session hidden_opts [] [Destroy])) = None \<and>
   threw (session hidden_opts [] [Destroy, Update]) = None \<and>
   session hidden_opts [] [Destroy, Update] = session hidden_opts [] [Destroy]"
  by code_simp

text \<open>
  Claim C10, as the code has it. \<^verbatim>\<open>destroy()\<close> on a live node returns and leaves the
  references to the four strips and to the texture undefined, the visibility as it was.
  From then on \<^verbatim>\<open>resize()\<close> always fails with a \<^verbatim>\<open>TypeError\<close>, before writing anything;
  \<^verbatim>\<open>update()\<close> fails with a \<^verbatim>\<open>TypeError\<close> exactly when the node is visible, after having
  added \<^verbatim>\<open>speed\<close> to \<^verbatim>\<open>_currentTime\<close>, and on a node that is not visible it returns
  normally and changes nothing.
\<close>

theorem use_after_destroy:
  assumes "alive s"
  shows "\<exists>s'. destroy s = Inr s' \<and>
           topLine s' = None \<and> leftLine s' = None \<and> rightLine s' = None \<and>
           bottomLine s' = None \<and> texture s' = None \<and>
           visible s' = visible s \<and>
           resize w h s' = Inl (TypeError, s') \<and>
           update s' =
             (if visible s' then Inl (TypeError, s'\<lparr>currentTime := js_add (currentTime s') (speed s')\<rparr>)
              else Inr s')"
proof -
  from assms obtain t l r b x where
    refs: "topLine s = Some t" "leftLine s = Some l" "rightLine s = Some r" "bottomLine s = Some b"
      "texture s = Some x"
    by (auto simp: alive_def)
  define s' where "s' = s\<lparr>children := [], destroyed := True, topLine := None, leftLine := None,
      rightLine := None, bottomLine := None, texture := None\<rparr>"
  have d: "destroy s = Inr s'"
    using destroy_alive [OF refs] by (simp add: s'_def)
  have n: "topLine s' = None" "leftLine s' = None" "rightLine s' = None" "bottomLine s' = None"
    "texture s' = None" "visible s' = visible s"
    by (simp_all add: s'_def)
  have r: "resize w h s' = Inl (TypeError, s')"
    by (simp add: resize_def on_defs Let_def n)
  have u: "update s' =
             (if visible s' then Inl (TypeError, s'\<lparr>currentTime := js_add (currentTime s') (speed s')\<rparr>)
              else Inr s')"
    by (simp add: update_def on_defs Let_def n)
  from d n r u show ?thesis by blast
qed

text \<open>The theorem at the default node, which is visible: both calls fail after destroy.\<close>

theorem use_after_destroy_witness:
  "alive (result_state (construct no_options [])) \<and>
   (\<exists>s'. destroy (result_state (construct no_options [])) = Inr s' \<and>
      topLine s' = None \<and> texture s' = None \<and>
      threw (resize (Num 1) (Num 1) s') = Some TypeError \<and> threw (update s') = Some TypeError)"
proof -
  let ?s = "result_state (construct no_options [])"
  have a: "alive ?s" and v: "visible ?s"
    by code_simp+
  from use_after_destroy [OF a, of "Num 1" "Num 1"] obtain s' where
    d: "destroy ?s = Inr s'" and n: "topLine s' = None" "texture s' = None"
    and vs: "visible s' = visible ?s"
    and r: "resize (Num 1) (Num 1) s' = Inl (TypeError, s')"
    and u: "update s' =
             (if visible s' then Inl (TypeError, s'\<lparr>currentTime := js_add (currentTime s') (speed s')\<rparr>)
              else Inr s')"
    by blast
  from r have "threw (resize (Num 1) (Num 1) s') = Some TypeError"
    by (simp add: threw_def)
  moreover from u vs v have "threw (update s') = Some TypeError"
    by (simp add: threw_def)
  ultimately show ?thesis using a d n by blast
qed

subsection \<open>The autoUpdate setter\<close>

lemma emit_all_foreign:
  "ThisUpdate \<notin> set ls \<Longrightarrow> emit_all ls s = Inr s"
  by (induction ls s rule: emit_all.induct) simp_all

lemma emit_all_append:
  "emit_all (xs @ ys) s = (case emit_all xs s of Inl e \<Rightarrow> Inl e | Inr s' \<Rightarrow> emit_all ys s')"
  by (induction xs s rule: emit_all.induct) (simp_all split: sum.splits)

lemma ticker_set_autoUpdate:
  "ticker (set_autoUpdate v s) =
     (if v then ticker_add ThisUpdate (ticker_remove ThisUpdate (ticker s))
      else ticker_remove ThisUpdate (ticker s))"
  by (simp add: set_autoUpdate_def Let_def)

lemma count_removed: "count_list (ticker_remove l tk) l = 0"
  by (induction tk) (simp_all add: ticker_remove_def)

lemma remove_removed: "ticker_remove l (ticker_remove l tk) = ticker_remove l tk"
  by (simp add: ticker_remove_def)

lemma remove_added: "ticker_remove l (ticker_add l tk) = ticker_remove l tk"
  by (simp add: ticker_remove_def ticker_add_def)

lemma set_autoUpdate_twice: "set_autoUpdate v (set_autoUpdate v s) = set_autoUpdate v s"
  by (simp add: set_autoUpdate_def Let_def remove_removed remove_added)

lemma tick_registered_once:
  assumes "visible s" and "alive s"
  shows "\<exists>s'. tick (set_autoUpdate True s) = Inr s' \<and> currentTime s' = js_add (currentTime s) (speed s)"
proof -
  let ?s1 = "set_autoUpdate True s"
  from \<open>alive s\<close> obtain t l r b where
    refs: "topLine ?s1 = Some t" "leftLine ?s1 = Some l" "rightLine ?s1 = Some r"
      "bottomLine ?s1 = Some b"
    by (auto simp: alive_def set_autoUpdate_fields)
  have v: "visible ?s1"
    using \<open>visible s\<close> by (simp add: set_autoUpdate_fields)
  have others: "ThisUpdate \<notin> set (ticker_remove ThisUpdate (ticker s))"
    by (simp add: ticker_remove_def)
  have "tick ?s1 = update ?s1"
    by (simp add: tick_def ticker_set_autoUpdate ticker_add_def emit_all_append
        emit_all_foreign [OF others] split: sum.splits)
  with update_alive [OF v refs] show ?thesis
    by (simp add: set_autoUpdate_fields)
qed

text \<open>
  Claim C7. Whatever listeners the shared ticker holds, the \<^verbatim>\<open>autoUpdate\<close> setter first
  removes this node's \<^verbatim>\<open>update\<close> callback and then, if the value is true, adds it: after
  the assignment the callback is registered exactly once for true and not at all for
  false, the flag holds the value, and assigning the same value a second time changes
  nothing. So after assigning true twice, one frame of the ticker on a live visible node
  adds \<^verbatim>\<open>speed\<close> to \<^verbatim>\<open>_currentTime\<close> exactly once.
\<close>

theorem autoUpdate_idempotent:
  "ticker (set_autoUpdate v s) =
     (if v then ticker_add ThisUpdate (ticker_remove ThisUpdate (ticker s))
      else ticker_remove ThisUpdate (ticker s)) \<and>
   count_list (ticker (set_autoUpdate v s)) ThisUpdate = (if v then 1 else 0) \<and>
   autoUpdate (set_autoUpdate v s) = v \<and>
   set_autoUpdate v (set_autoUpdate v s) = set_autoUpdate v s \<and>
   (visible s \<and> alive s \<longrightarrow>
      (\<exists>s'. tick (set_autoUpdate True (set_autoUpdate True s)) = Inr s' \<and>
            currentTime s' = js_add (currentTime s) (speed s)))"
proof -
  have c: "count_list (ticker (set_autoUpdate v s)) ThisUpdate = (if v then 1 else 0)"
    by (simp add: ticker_set_autoUpdate ticker_add_def count_removed)
  show ?thesis
    using c tick_registered_once [of s]
    by (simp add: ticker_set_autoUpdate set_autoUpdate_fields set_autoUpdate_twice)
qed

text \<open>
  The theorem at a default node whose callback was registered twice among foreign
  listeners: one registration remains, and a frame advances the time from \<open>0\<close> to the double \<^verbatim>\<open>0.2\<close>.
\<close>

theorem autoUpdate_idempotent_witness:
  "visible (result_state (construct no_options [ThisUpdate, Foreign 1, ThisUpdate])) \<and>
   alive (result_state (construct no_options [ThisUpdate, Foreign 1, ThisUpdate])) \<and>
   ticker (set_autoUpdate True (result_state (construct no_options [ThisUpdate, Foreign 1, ThisUpdate])))
     = [Foreign 1, ThisUpdate] \<and>
   (\<exists>s'. tick (set_autoUpdate True (set_autoUpdate True
            (result_state (construct no_options [ThisUpdate, Foreign 1, ThisUpdate])))) = Inr s' \<and>
         currentTime s' = round_double (1 / 5))"
proof -
  let ?s = "result_state (construct no_options [ThisUpdate, Foreign 1, ThisUpdate])"
  have v: "visible ?s" and a: "alive ?s"
    by code_simp+
  have c: "js_add (currentTime ?s) (speed ?s) = round_double (1 / 5)"
    by code_simp
  have t: "ticker (set_autoUpdate True ?s) = [Foreign 1, ThisUpdate]"
    by code_simp
  from autoUpdate_idempotent [of True ?s] v a obtain s' where
    "tick (set_autoUpdate True (set_autoUpdate True ?s)) = Inr s'"
    "currentTime s' = js_add (currentTime ?s) (speed ?s)"
    by blast
  then have "tick (set_autoUpdate True (set_autoUpdate True ?s)) = Inr s' \<and> currentTime s' = round_double (1 / 5)"
    unfolding c by simp
  with v a t show ?thesis by blast
qed

subsection \<open>The dash texture\<close>










end
